theory Spec2Isabelle
  imports Complex_Main "HOL-Library.AList"
begin

section \<open>Data model of examples/td_agent.py\<close>

text \<open>
  A state is the pair (board, mark to move); the board is a tuple of cell codes and a
  mark is a Python string. Values are Python numbers (the integers 0, 1, -1 and floats);
  they are read here as exact real numbers, so the arithmetic of the model is the
  arithmetic the source writes, without rounding. An action is an index into the board.
\<close>

type_synonym mark = string
type_synonym board = "int list"
type_synonym state = "board \<times> mark"
type_synonym action = nat

datatype error =
    AssertionError
  | IndexError
  | ValueError
  | AttributeError
  | UnicodeDecodeError
  | SyntaxError
  | TypeError
  | JSONDecodeError
  | OutsideModel

text \<open>
  The two module globals. \<open>st_values = {}\<close> is a dictionary, kept in insertion order
  (the order \<open>save_model\<close> writes it in); \<open>st_visits = defaultdict(lambda: 0)\<close> is
  only ever read at a key, so it is the total function with default 0.
\<close>

record store =
  st_values :: "(state \<times> real) list"
  st_visits :: "state \<Rightarrow> int"

definition DEFAULT_VALUE :: real where
  "DEFAULT_VALUE = 0"

definition empty_store :: store where
  "empty_store = \<lparr>st_values = [], st_visits = (\<lambda>_. 0)\<rparr>"

text \<open>\<open>state in st_values\<close> and \<open>st_values[state]\<close>.\<close>

definition lookup :: "store \<Rightarrow> state \<Rightarrow> real option" where
  "lookup st state = map_of (st_values st) state"

text \<open>
  \<^verbatim>\<open>
  def set_state_value(state, value):
      st_visits[state] += 1
      st_values[state] = value
  \<close>
\<close>

definition set_state_value :: "state \<Rightarrow> real \<Rightarrow> store \<Rightarrow> store" where
  "set_state_value state val st =
     st\<lparr>st_visits := (st_visits st)(state := st_visits st state + 1),
        st_values := AList.update state val (st_values st)\<rparr>"

subsection \<open>The environment module\<close>

text \<open>
  \<open>gym_tictactoe.env\<close> is imported, not part of the sources: the names the agent
  imports from it are parameters of the model. \<open>env_module\<close> holds the pure functions
  and constants, \<open>env_class\<close> the methods of a \<open>TicTacToeEnv\<close> object whose internal
  state has type \<open>'e\<close>.
\<close>

record env_module =
  after_action_state :: "state \<Rightarrow> action \<Rightarrow> state"
  check_game_status :: "board \<Rightarrow> int"
  O_REWARD :: real
  X_REWARD :: real
  next_mark :: "mark \<Rightarrow> mark"

subsection \<open>TDAgent\<close>

record td_agent =
  mark :: mark
  alpha :: real
  epsilon :: real
  episode_rate :: real

text \<open>\<open>TDAgent.__init__(mark, epsilon, alpha)\<close>\<close>

definition TDAgent :: "mark \<Rightarrow> real \<Rightarrow> real \<Rightarrow> td_agent" where
  "TDAgent m eps a = \<lparr>mark = m, alpha = a, epsilon = eps, episode_rate = 1\<rparr>"

text \<open>
  \<^verbatim>\<open>
  def ask_value(self, state):
      if state not in st_values:
          gstatus = check_game_status(state[0])
          val = DEFAULT_VALUE
          if gstatus > 0:
              val = O_REWARD if self.mark == 'O' else X_REWARD
          set_state_value(state, val)
      return st_values[state]
  \<close>
  The value the lazy initialisation stores is \<open>initial_value\<close>; the function returns the
  value read and the store, updated when the state was absent.
\<close>

definition initial_value :: "env_module \<Rightarrow> td_agent \<Rightarrow> state \<Rightarrow> real" where
  "initial_value M ag state =
     (let gstatus = check_game_status M (fst state) in
      if gstatus > 0 then (if mark ag = ''O'' then O_REWARD M else X_REWARD M)
      else DEFAULT_VALUE)"

definition ask_value :: "env_module \<Rightarrow> td_agent \<Rightarrow> state \<Rightarrow> store \<Rightarrow> real \<times> store" where
  "ask_value M ag state st =
     (case lookup st state of
        None \<Rightarrow> (let val = initial_value M ag state in (val, set_state_value state val st))
      | Some v \<Rightarrow> (v, st))"

text \<open>
  The value \<open>ask_value\<close> gives for a state on a store: the stored value, or the initial
  value of a state the store does not hold.
\<close>

definition current_value :: "env_module \<Rightarrow> td_agent \<Rightarrow> store \<Rightarrow> state \<Rightarrow> real" where
  "current_value M ag st s = (case lookup st s of Some v \<Rightarrow> v | None \<Rightarrow> initial_value M ag s)"

text \<open>
  \<^verbatim>\<open>
  def backup(self, state, nstate, reward):
      val = self.ask_value(state)
      nval = self.ask_value(nstate)
      diff = nval - val
      val2 = val + self.alpha * diff
      set_state_value(state, val2)
  \<close>
\<close>

definition backup :: "env_module \<Rightarrow> td_agent \<Rightarrow> state \<Rightarrow> state \<Rightarrow> real \<Rightarrow> store \<Rightarrow> store" where
  "backup M ag state nstate reward st =
     (let (val, st1) = ask_value M ag state st;
          (nval, st2) = ask_value M ag nstate st1;
          diff = nval - val;
          val2 = val + alpha ag * diff
      in set_state_value state val2 st2)"

subsection \<open>The random module\<close>

text \<open>
  The generator is the sequence of its future raw draws. \<open>random.random()\<close> is a
  multiple of \<open>2^-53\<close> in \<open>[0, 1)\<close>; \<open>random.choice(seq)\<close> raises IndexError on
  an empty sequence and otherwise returns \<open>seq[k]\<close> for an index \<open>k\<close> below the
  length, drawn from the generator.
\<close>

type_synonym rng = "nat \<Rightarrow> nat"

definition rng_next :: "rng \<Rightarrow> nat \<times> rng" where
  "rng_next g = (g 0, \<lambda>n. g (Suc n))"

definition random_random :: "rng \<Rightarrow> real \<times> rng" where
  "random_random g = (let (d, g') = rng_next g in (real (d mod 2 ^ 53) / 2 ^ 53, g'))"

definition random_choice :: "rng \<Rightarrow> 'a list \<Rightarrow> error + ('a \<times> rng)" where
  "random_choice g xs =
     (if xs = [] then Inl IndexError
      else (let (d, g') = rng_next g in Inr (xs ! (d mod length xs), g')))"

subsection \<open>Greedy and epsilon-greedy action selection\<close>

text \<open>The builtins \<open>max\<close> and \<open>min\<close> on a list: ValueError on the empty list.\<close>

definition py_max :: "real list \<Rightarrow> error + real" where
  "py_max xs = (case xs of [] \<Rightarrow> Inl ValueError | x # ys \<Rightarrow> Inr (fold max ys x))"

definition py_min :: "real list \<Rightarrow> error + real" where
  "py_min xs = (case xs of [] \<Rightarrow> Inl ValueError | x # ys \<Rightarrow> Inr (fold min ys x))"

text \<open>
  \<^verbatim>\<open>
  def best_val_indices(values, fn):
      best = fn(values)
      return [i for i, v in enumerate(values) if v == best]
  \<close>
\<close>

definition best_val_indices :: "real list \<Rightarrow> (real list \<Rightarrow> error + real) \<Rightarrow> error + nat list" where
  "best_val_indices vals fn =
     (case fn vals of
        Inl e \<Rightarrow> Inl e
      | Inr best \<Rightarrow> Inr (map fst (filter (\<lambda>(i, v). v = best) (enumerate 0 vals))))"

text \<open>
  The loop of \<open>greedy_action\<close> that fills \<open>ava_values\<close>:
  \<^verbatim>\<open>
  for action in ava_actions:
      nstate = after_action_state(state, action)
      nval = self.ask_value(nstate)
      ava_values.append(nval)
  \<close>
\<close>

fun ava_values_of ::
  "env_module \<Rightarrow> td_agent \<Rightarrow> state \<Rightarrow> action list \<Rightarrow> store \<Rightarrow> real list \<times> store" where
  "ava_values_of M ag state [] st = ([], st)"
| "ava_values_of M ag state (action # rest) st =
     (let nstate = after_action_state M state action;
          (nval, st1) = ask_value M ag nstate st;
          (vals, st2) = ava_values_of M ag state rest st1
      in (nval # vals, st2))"

text \<open>
  \<^verbatim>\<open>
  def greedy_action(self, state, ava_actions):
      assert len(ava_actions) > 0
      ava_values = [] ... (the loop above)
      if self.mark == 'O':
          indices = best_val_indices(ava_values, max)
      else:
          indices = best_val_indices(ava_values, min)
      aidx = random.choice(indices)
      action = ava_actions[aidx]
      return action
  \<close>
  The result is the action together with the store and the generator after the call.
\<close>

definition greedy_action ::
  "env_module \<Rightarrow> td_agent \<Rightarrow> state \<Rightarrow> action list \<Rightarrow> store \<Rightarrow> rng
     \<Rightarrow> error + (action \<times> store \<times> rng)" where
  "greedy_action M ag state ava_actions st g =
     (if \<not> length ava_actions > 0 then Inl AssertionError
      else
        (let (ava_values, st') = ava_values_of M ag state ava_actions st in
         case (if mark ag = ''O'' then best_val_indices ava_values py_max
               else best_val_indices ava_values py_min) of
           Inl e \<Rightarrow> Inl e
         | Inr indices \<Rightarrow>
             (case random_choice g indices of
                Inl e \<Rightarrow> Inl e
              | Inr (aidx, g') \<Rightarrow>
                  (if aidx < length ava_actions then Inr (ava_actions ! aidx, st', g')
                   else Inl IndexError))))"

definition random_action :: "action list \<Rightarrow> rng \<Rightarrow> error + (action \<times> rng)" where
  "random_action ava_actions g = random_choice g ava_actions"

text \<open>
  \<^verbatim>\<open>
  def egreedy_policy(self, state, ava_actions):
      e = random.random()
      if e < self.epsilon * self.episode_rate:
          action = self.random_action(ava_actions)
      else:
          action = self.greedy_action(state, ava_actions)
      return action
  \<close>
\<close>

definition egreedy_policy ::
  "env_module \<Rightarrow> td_agent \<Rightarrow> state \<Rightarrow> action list \<Rightarrow> store \<Rightarrow> rng
     \<Rightarrow> error + (action \<times> store \<times> rng)" where
  "egreedy_policy M ag state ava_actions st g =
     (let (e, g1) = random_random g in
      if e < epsilon ag * episode_rate ag then
        (case random_action ava_actions g1 of
           Inl er \<Rightarrow> Inl er
         | Inr (action, g2) \<Rightarrow> Inr (action, st, g2))
      else greedy_action M ag state ava_actions st g1)"

definition act ::
  "env_module \<Rightarrow> td_agent \<Rightarrow> state \<Rightarrow> action list \<Rightarrow> store \<Rightarrow> rng
     \<Rightarrow> error + (action \<times> store \<times> rng)" where
  "act M ag state ava_actions st g = egreedy_policy M ag state ava_actions st g"

subsection \<open>The environment object and the running program\<close>

record 'e env_class =
  new_env :: 'e
  set_start_mark :: "mark \<Rightarrow> 'e \<Rightarrow> 'e"
  env_reset :: "'e \<Rightarrow> state \<times> 'e"
  available_actions :: "'e \<Rightarrow> action list"
  env_step :: "action \<Rightarrow> 'e \<Rightarrow> (state \<times> real \<times> bool) \<times> 'e"

text \<open>What a run mutates: the environment object, the two global tables, the generator.\<close>

record 'e world =
  w_env :: 'e
  w_store :: store
  w_rng :: rng

text \<open>
  Modelled from the spec: \<open>agent_by_mark\<close> of the environment module, which is not among
  the sources. Each turn is played by "the acting agent", the one whose mark is the mark
  to move: the first agent of the list with that mark, \<open>None\<close> when there is none.
\<close>

definition agent_by_mark :: "('a \<Rightarrow> mark) \<Rightarrow> 'a list \<Rightarrow> mark \<Rightarrow> 'a option" where
  "agent_by_mark mark_of agents m = find (\<lambda>agent. mark_of agent = m) agents"

subsection \<open>Training\<close>

text \<open>
  The inner loop of \<open>_learn\<close>; \<open>mark\<close> is always the second component of \<open>state\<close>.
  \<^verbatim>\<open>
  while not done:
      agent = agent_by_mark(agents, mark)
      ava_actions = env.available_actions()
      action = agent.act(state, ava_actions)
      nstate, reward, done, info = env.step(action)
      agent.backup(state, nstate, reward)
      if done:
          # set terminal state value
          set_state_value(state, reward)
      _, mark = state = nstate
  \<close>
  The loop runs as long as the environment does not report \<open>done\<close>, so the model counts
  the turns it may still take: \<open>None\<close> is a loop that has not ended within them. On exit
  it gives the variables \<open>state\<close> and \<open>reward\<close> as the loop leaves them.
\<close>

fun learn_while ::
  "'e env_class \<Rightarrow> env_module \<Rightarrow> nat \<Rightarrow> td_agent list \<Rightarrow> state \<Rightarrow> 'e world
     \<Rightarrow> (error + (state \<times> real \<times> 'e world)) option" where
  "learn_while E M 0 agents state w = None"
| "learn_while E M (Suc fuel) agents state w =
     (case agent_by_mark mark agents (snd state) of
        None \<Rightarrow> Some (Inl AttributeError)
      | Some agent \<Rightarrow>
          (let ava_actions = available_actions E (w_env w) in
           case act M agent state ava_actions (w_store w) (w_rng w) of
             Inl e \<Rightarrow> Some (Inl e)
           | Inr (action, st1, g1) \<Rightarrow>
               (let ((nstate, reward, done), env1) = env_step E action (w_env w);
                    st2 = backup M agent state nstate reward st1;
                    st3 = (if done then set_state_value state reward st2 else st2);
                    w' = \<lparr>w_env = env1, w_store = st3, w_rng = g1\<rparr>
                in if done then Some (Inr (nstate, reward, w'))
                   else learn_while E M fuel agents nstate w')))"

text \<open>
  One pass of the outer loop, for the index \<open>i\<close> of \<open>range(max_episode)\<close>:
  \<^verbatim>\<open>
  episode = i + 1
  for agent in agents:
      agent.episode_rate = episode / float(max_episode)
  env.set_start_mark(start_mark)
  state = env.reset()
  _, mark = state
  done = False
  while not done: ...
  start_mark = next_mark(start_mark)
  \<close>
\<close>

definition learn_episode ::
  "'e env_class \<Rightarrow> env_module \<Rightarrow> nat \<Rightarrow> int \<Rightarrow> nat \<Rightarrow> td_agent list \<Rightarrow> mark \<Rightarrow> 'e world
     \<Rightarrow> (error + (td_agent list \<times> state \<times> real \<times> 'e world)) option" where
  "learn_episode E M fuel max_episode i agents start_mark w =
     (let episode = i + 1;
          agents' = map (\<lambda>agent. agent\<lparr>episode_rate := real episode / real_of_int max_episode\<rparr>) agents;
          env1 = set_start_mark E start_mark (w_env w);
          (state, env2) = env_reset E env1
      in case learn_while E M fuel agents' state (w\<lparr>w_env := env2\<rparr>) of
           None \<Rightarrow> None
         | Some (Inl e) \<Rightarrow> Some (Inl e)
         | Some (Inr (state', reward, w')) \<Rightarrow> Some (Inr (agents', state', reward, w')))"

fun learn_for ::
  "'e env_class \<Rightarrow> env_module \<Rightarrow> nat \<Rightarrow> int \<Rightarrow> nat list \<Rightarrow> td_agent list \<Rightarrow> mark \<Rightarrow> 'e world
     \<Rightarrow> (error + 'e world) option" where
  "learn_for E M fuel max_episode [] agents start_mark w = Some (Inr w)"
| "learn_for E M fuel max_episode (i # rest) agents start_mark w =
     (case learn_episode E M fuel max_episode i agents start_mark w of
        None \<Rightarrow> None
      | Some (Inl e) \<Rightarrow> Some (Inl e)
      | Some (Inr (agents', state', reward, w')) \<Rightarrow>
          learn_for E M fuel max_episode rest agents' (next_mark M start_mark) w')"

subsection \<open>Model files\<close>

text \<open>
  A model file is the list of its lines, each with its newline. The first line is the
  JSON text of the dictionary \<open>dict(type="td", max_episode=..., epsilon=..., alpha=...)\<close>;
  the \<open>json\<close> module is a parameter of the model.
\<close>

record info =
  info_type :: string
  info_max_episode :: int
  info_epsilon :: real
  info_alpha :: real

record json_module =
  json_dumps :: "info \<Rightarrow> string"
  json_loads :: "string \<Rightarrow> error + info"

definition TAB :: char where
  "TAB = CHR 0x09"

definition NEWLINE :: char where
  "NEWLINE = CHR 0x0A"

subsubsection \<open>Writing: str.format\<close>

definition digit_char :: "nat \<Rightarrow> char" where
  "digit_char d = ''0123456789'' ! (d mod 10)"

function nat_digits :: "nat \<Rightarrow> string" where
  "nat_digits n = (if n < 10 then [digit_char n] else nat_digits (n div 10) @ [digit_char (n mod 10)])"
  by pat_completeness auto
termination
  by (relation "measure (\<lambda>n. n)") auto

declare nat_digits.simps [simp del]

text \<open>\<open>'{}'.format(i)\<close> for an integer.\<close>

definition py_str_int :: "int \<Rightarrow> string" where
  "py_str_int i = (if i < 0 then ''-'' @ nat_digits (nat (- i)) else nat_digits (nat i))"

text \<open>\<open>str\<close> of a tuple whose items have the given texts: \<open>()\<close>, \<open>(a,)\<close>, \<open>(a, b, c)\<close>.\<close>

fun join_comma :: "string list \<Rightarrow> string" where
  "join_comma [] = []"
| "join_comma [x] = x"
| "join_comma (x # y # ys) = x @ '', '' @ join_comma (y # ys)"

definition py_str_tuple :: "string list \<Rightarrow> string" where
  "py_str_tuple items =
     (case items of
        [] \<Rightarrow> ''()''
      | [x] \<Rightarrow> ''('' @ x @ '',)''
      | _ \<Rightarrow> ''('' @ join_comma items @ '')'')"

text \<open>
  \<open>repr\<close> of a string that holds no quote, backslash or control character, as the marks
  \<open>'O'\<close> and \<open>'X'\<close> do: the string between single quotes.
\<close>

definition py_repr_str :: "string \<Rightarrow> string" where
  "py_repr_str s = [CHR 0x27] @ s @ [CHR 0x27]"

text \<open>\<open>'{}'.format(state)\<close>, as in \<open>((0, 1, 0, 0, 2, 0, 0, 0, 0), 'O')\<close>.\<close>

definition py_str_state :: "state \<Rightarrow> string" where
  "py_str_state state =
     py_str_tuple [py_str_tuple (map py_str_int (fst state)), py_repr_str (snd state)]"

text \<open>
  \<open>'{:0.3f}'.format(value)\<close>: the value rounded to a multiple of 0.001, ties to the even
  neighbour, written with its sign, its integer part and three decimals.
\<close>

definition round_half_even :: "real \<Rightarrow> int" where
  "round_half_even x =
     (let f = \<lfloor>x\<rfloor>; d = x - of_int f in
      if d < 1 / 2 then f
      else if 1 / 2 < d then f + 1
      else if even f then f else f + 1)"

definition format_0_3f :: "real \<Rightarrow> string" where
  "format_0_3f v =
     (let q = nat (round_half_even (\<bar>v\<bar> * 1000)) in
      (if v < 0 then ''-'' else []) @ nat_digits (q div 1000) @ ''.''
        @ [digit_char (q div 100 mod 10), digit_char (q div 10 mod 10), digit_char (q mod 10)])"


text \<open>
  \<^verbatim>\<open>
  def save_model(save_file, max_episode, epsilon, alpha):
      with open(save_file, 'wt') as f:
          info = dict(type="td", max_episode=max_episode, epsilon=epsilon, alpha=alpha)
          f.write('{}\n'.format(json.dumps(info)))
          for state, value in st_values.items():
              vcnt = st_visits[state]
              f.write('{}\t{:0.3f}\t{}\n'.format(state, value, vcnt))
  \<close>
  The result is the content of the file written.
\<close>

definition save_model :: "json_module \<Rightarrow> int \<Rightarrow> real \<Rightarrow> real \<Rightarrow> store \<Rightarrow> string list" where
  "save_model J max_episode eps a st =
     (let info = \<lparr>info_type = ''td'', info_max_episode = max_episode,
                  info_epsilon = eps, info_alpha = a\<rparr> in
      (json_dumps J info @ [NEWLINE])
      # map (\<lambda>(state, val).
              (let vcnt = st_visits st state in
               py_str_state state @ [TAB] @ format_0_3f val @ [TAB] @ py_str_int vcnt @ [NEWLINE]))
            (st_values st))"

subsubsection \<open>Reading: eval\<close>

text \<open>
  \<open>load_model\<close> decodes every field with the builtin \<open>eval\<close>, which gives a Python
  object or raises. \<open>eval\<close> is a parameter of \<open>load_model\<close> here; \<open>pyval\<close> are the objects
  the model knows. The two tables of the model hold states, numbers and integers; an
  object of another shape, which Python would store as it is, is not representable and
  is reported as \<open>OutsideModel\<close>.
\<close>

datatype pyval = PInt int | PFloat real | PStr string | PTuple "pyval list"





text \<open>\<open>bytes.decode('ascii')\<close>, \<open>str.split('\t')\<close> and indexing a list.\<close>

definition decode_ascii :: "string \<Rightarrow> error + string" where
  "decode_ascii line =
     (if \<forall>c \<in> set line. (of_char c :: nat) < 128 then Inr line else Inl UnicodeDecodeError)"









text \<open>
  What the round trip needs of \<open>eval\<close>, of \<open>json\<close> and of the marks. A text is plain when it
  is ASCII and holds no tab. \<open>eval\<close> decodes what \<open>save_model\<close> wrote for a store when,
  for every entry, it gives the state back from its text, the number a three-decimal
  text denotes, and the integer from the text of the visit count (which ends the
  line); the marks of the entries are plain.
\<close>

definition plain_text :: "string \<Rightarrow> bool" where
  "plain_text s = (\<forall>c \<in> set s. c \<noteq> TAB \<and> (of_char c :: nat) < 128)"


subsubsection \<open>A fragment of eval\<close>

text \<open>
  The builtin \<open>eval\<close> on the expressions the examples below use: decimal integer and
  fixed-point literals, single-quoted strings without escapes, tuples, parentheses, the
  unary signs and binary \<open>+\<close> and \<open>-\<close>, with blanks between the tokens and one newline at
  the end. A text outside this fragment gives \<open>OutsideModel\<close>: nothing is said about what
  Python does with it.
\<close>

datatype token = T_NUM pyval | T_STR string | T_LPAR | T_RPAR | T_COMMA | T_PLUS | T_MINUS







fun py_add :: "pyval \<Rightarrow> pyval \<Rightarrow> error + pyval" where
  "py_add (PInt a) (PInt b) = Inr (PInt (a + b))"
| "py_add (PInt a) (PFloat b) = Inr (PFloat (of_int a + b))"
| "py_add (PFloat a) (PInt b) = Inr (PFloat (a + of_int b))"
| "py_add (PFloat a) (PFloat b) = Inr (PFloat (a + b))"
| "py_add (PStr a) (PStr b) = Inr (PStr (a @ b))"
| "py_add (PTuple a) (PTuple b) = Inr (PTuple (a @ b))"
| "py_add _ _ = Inl TypeError"

fun py_sub :: "pyval \<Rightarrow> pyval \<Rightarrow> error + pyval" where
  "py_sub (PInt a) (PInt b) = Inr (PInt (a - b))"
| "py_sub (PInt a) (PFloat b) = Inr (PFloat (of_int a - b))"
| "py_sub (PFloat a) (PInt b) = Inr (PFloat (a - of_int b))"
| "py_sub (PFloat a) (PFloat b) = Inr (PFloat (a - b))"
| "py_sub _ _ = Inl TypeError"

fun py_neg :: "pyval \<Rightarrow> error + pyval" where
  "py_neg (PInt a) = Inr (PInt (- a))"
| "py_neg (PFloat a) = Inr (PFloat (- a))"
| "py_neg _ = Inl TypeError"

fun py_pos :: "pyval \<Rightarrow> error + pyval" where
  "py_pos (PInt a) = Inr (PInt a)"
| "py_pos (PFloat a) = Inr (PFloat a)"
| "py_pos _ = Inl TypeError"

text \<open>
  Recursive descent over the tokens; the first argument bounds the depth of the descent
  (\<open>py_eval\<close> gives it enough for the whole text).
\<close>

fun parse_expr :: "nat \<Rightarrow> token list \<Rightarrow> error + (pyval \<times> token list)"
  and parse_sum_rest :: "nat \<Rightarrow> pyval \<Rightarrow> token list \<Rightarrow> error + (pyval \<times> token list)"
  and parse_unary :: "nat \<Rightarrow> token list \<Rightarrow> error + (pyval \<times> token list)"
  and parse_atom :: "nat \<Rightarrow> token list \<Rightarrow> error + (pyval \<times> token list)"
  and parse_items :: "nat \<Rightarrow> pyval list \<Rightarrow> token list \<Rightarrow> error + (pyval list \<times> token list)"
where
  "parse_expr 0 ts = Inl OutsideModel"
| "parse_expr (Suc n) ts =
     (case parse_unary n ts of
        Inl e \<Rightarrow> Inl e
      | Inr (v, r) \<Rightarrow> parse_sum_rest n v r)"
| "parse_sum_rest 0 v ts = Inl OutsideModel"
| "parse_sum_rest (Suc n) v ts =
     (case ts of
        T_PLUS # r \<Rightarrow>
          (case parse_unary n r of
             Inl e \<Rightarrow> Inl e
           | Inr (w, r') \<Rightarrow>
               (case py_add v w of Inl e \<Rightarrow> Inl e | Inr s \<Rightarrow> parse_sum_rest n s r'))
      | T_MINUS # r \<Rightarrow>
          (case parse_unary n r of
             Inl e \<Rightarrow> Inl e
           | Inr (w, r') \<Rightarrow>
               (case py_sub v w of Inl e \<Rightarrow> Inl e | Inr s \<Rightarrow> parse_sum_rest n s r'))
      | _ \<Rightarrow> Inr (v, ts))"
| "parse_unary 0 ts = Inl OutsideModel"
| "parse_unary (Suc n) ts =
     (case ts of
        T_MINUS # r \<Rightarrow>
          (case parse_unary n r of Inl e \<Rightarrow> Inl e
           | Inr (v, r') \<Rightarrow> (case py_neg v of Inl e \<Rightarrow> Inl e | Inr w \<Rightarrow> Inr (w, r')))
      | T_PLUS # r \<Rightarrow>
          (case parse_unary n r of Inl e \<Rightarrow> Inl e
           | Inr (v, r') \<Rightarrow> (case py_pos v of Inl e \<Rightarrow> Inl e | Inr w \<Rightarrow> Inr (w, r')))
      | _ \<Rightarrow> parse_atom n ts)"
| "parse_atom 0 ts = Inl OutsideModel"
| "parse_atom (Suc n) ts =
     (case ts of
        T_NUM v # r \<Rightarrow> Inr (v, r)
      | T_STR s # r \<Rightarrow> Inr (PStr s, r)
      | T_LPAR # T_RPAR # r \<Rightarrow> Inr (PTuple [], r)
      | T_LPAR # r \<Rightarrow>
          (case parse_expr n r of
             Inl e \<Rightarrow> Inl e
           | Inr (v, r1) \<Rightarrow>
               (case r1 of
                  T_RPAR # r2 \<Rightarrow> Inr (v, r2)
                | T_COMMA # r2 \<Rightarrow>
                    (case parse_items n [v] r2 of
                       Inl e \<Rightarrow> Inl e
                     | Inr (vs, r3) \<Rightarrow> Inr (PTuple vs, r3))
                | _ \<Rightarrow> Inl SyntaxError))
      | _ \<Rightarrow> Inl SyntaxError)"
| "parse_items 0 acc ts = Inl OutsideModel"
| "parse_items (Suc n) acc ts =
     (case ts of
        T_RPAR # r \<Rightarrow> Inr (acc, r)
      | _ \<Rightarrow>
          (case parse_expr n ts of
             Inl e \<Rightarrow> Inl e
           | Inr (v, r1) \<Rightarrow>
               (case r1 of
                  T_RPAR # r2 \<Rightarrow> Inr (acc @ [v], r2)
                | T_COMMA # r2 \<Rightarrow> parse_items n (acc @ [v]) r2
                | _ \<Rightarrow> Inl SyntaxError)))"


text \<open>
  \<open>_learn(max_episode, epsilon, alpha, save_file)\<close>: the episodes, then \<open>save_model\<close>. The
  tables and the generator are the globals the call finds; the result is the content of
  the file written and the world the call leaves.
  \<^verbatim>\<open>
  env = TicTacToeEnv()
  agents = [TDAgent('O', epsilon, alpha), TDAgent('X', epsilon, alpha)]
  start_mark = 'O'
  for i in tqdm(range(max_episode)): ...
  save_model(save_file, max_episode, epsilon, alpha)
  \<close>
\<close>

definition learn ::
  "'e env_class \<Rightarrow> env_module \<Rightarrow> json_module \<Rightarrow> nat \<Rightarrow> int \<Rightarrow> real \<Rightarrow> real \<Rightarrow> store \<Rightarrow> rng
     \<Rightarrow> (error + (string list \<times> 'e world)) option" where
  "learn E M J fuel max_episode eps a st g =
     (let env = new_env E;
          agents = [TDAgent ''O'' eps a, TDAgent ''X'' eps a];
          start_mark = ''O''
      in case learn_for E M fuel max_episode [0..<nat max_episode] agents start_mark
                \<lparr>w_env = env, w_store = st, w_rng = g\<rparr> of
           None \<Rightarrow> None
         | Some (Inl e) \<Rightarrow> Some (Inl e)
         | Some (Inr w) \<Rightarrow> Some (Inr (save_model J max_episode eps a (w_store w), w)))"

subsection \<open>Benchmark\<close>









subsection \<open>A concrete environment: tic-tac-toe on a 3x3 board\<close>

text \<open>
  Modelled from the spec: the environment collaborator \<open>gym_tictactoe.env\<close>, which is not
  among the sources. The spec gives its interface (\<open>reset\<close>, \<open>available_actions\<close>, \<open>step\<close>,
  \<open>after_action_state\<close>, \<open>check_game_status\<close> with a status code for ongoing, draw and win
  for a mark), a single 3x3 board with empty, player-A and player-B cells, rewards in
  \<open>{-1, 0, 1}\<close> with +1 a win of the baseline mark \<open>'O'\<close> and -1 a win of the mark \<open>'X'\<close>, and
  the rotation between the two marks. Cells are coded 0 (empty), 1 (\<open>'O'\<close>) and 2 (\<open>'X'\<close>);
  the status is -1 while the game goes on, 0 for a draw and the code of the winner's
  mark for a win. The general theorems do not use this instance; the closed examples do.
\<close>

definition tocode :: "mark \<Rightarrow> int" where
  "tocode m = (if m = ''O'' then 1 else 2)"

definition ttt_next_mark :: "mark \<Rightarrow> mark" where
  "ttt_next_mark m = (if m = ''O'' then ''X'' else ''O'')"

definition ttt_after_action_state :: "state \<Rightarrow> action \<Rightarrow> state" where
  "ttt_after_action_state state action =
     (let (b, m) = state in (b[action := tocode m], ttt_next_mark m))"

definition win_lines :: "nat list list" where
  "win_lines = [[0, 1, 2], [3, 4, 5], [6, 7, 8], [0, 3, 6], [1, 4, 7], [2, 5, 8], [0, 4, 8], [2, 4, 6]]"

definition wins :: "board \<Rightarrow> int \<Rightarrow> bool" where
  "wins b t = (\<exists>l \<in> set win_lines. \<forall>i \<in> set l. i < length b \<and> b ! i = t)"

definition ttt_check_game_status :: "board \<Rightarrow> int" where
  "ttt_check_game_status b =
     (if wins b 1 then 1 else if wins b 2 then 2 else if 0 \<in> set b then - 1 else 0)"

definition ttt_module :: env_module where
  "ttt_module =
     \<lparr>after_action_state = ttt_after_action_state,
      check_game_status = ttt_check_game_status,
      O_REWARD = 1, X_REWARD = - 1,
      next_mark = ttt_next_mark\<rparr>"

record ttt_env =
  env_board :: board
  env_mark :: mark
  env_done :: bool
  env_start_mark :: mark

definition ttt_obs :: "ttt_env \<Rightarrow> state" where
  "ttt_obs e = (env_board e, env_mark e)"

definition ttt_reset :: "ttt_env \<Rightarrow> state \<times> ttt_env" where
  "ttt_reset e =
     (let e' = e\<lparr>env_board := replicate 9 0, env_mark := env_start_mark e, env_done := False\<rparr>
      in (ttt_obs e', e'))"

definition ttt_available_actions :: "ttt_env \<Rightarrow> action list" where
  "ttt_available_actions e =
     map fst (filter (\<lambda>(i, c). c = 0) (enumerate 0 (env_board e)))"

definition ttt_step :: "action \<Rightarrow> ttt_env \<Rightarrow> (state \<times> real \<times> bool) \<times> ttt_env" where
  "ttt_step action e =
     (if env_done e then ((ttt_obs e, 0, True), e)
      else
        (let b = (env_board e)[action := tocode (env_mark e)];
             status = ttt_check_game_status b;
             done = (status \<ge> 0);
             reward = (if status = 1 \<or> status = 2
                       then (if env_mark e = ''O'' then 1 else - 1) else 0);
             e' = e\<lparr>env_board := b, env_done := done, env_mark := ttt_next_mark (env_mark e)\<rparr>
         in ((ttt_obs e', reward, done), e')))"

definition ttt_class :: "ttt_env env_class" where
  "ttt_class =
     \<lparr>new_env = \<lparr>env_board = replicate 9 0, env_mark = ''O'', env_done = False,
                 env_start_mark = ''O''\<rparr>,
      set_start_mark = (\<lambda>m e. e\<lparr>env_start_mark := m\<rparr>),
      env_reset = ttt_reset,
      available_actions = ttt_available_actions,
      env_step = ttt_step\<rparr>"








section \<open>Properties\<close>

lemma lookup_set_state_value:
  "lookup (set_state_value s v st) s' = (if s' = s then Some v else lookup st s')"
  by (simp add: lookup_def set_state_value_def update_conv')

lemma st_visits_set_state_value:
  "st_visits (set_state_value s v st) s' = (if s' = s then st_visits st s + 1 else st_visits st s')"
  by (simp add: set_state_value_def)

subsection \<open>The store\<close>

lemma ask_value_fst: "fst (ask_value M ag s st) = current_value M ag st s"
  by (simp add: ask_value_def current_value_def Let_def split: option.splits)

lemma ask_value_lookup:
  "lookup (snd (ask_value M ag s st)) s' =
     (if s' = s then Some (current_value M ag st s) else lookup st s')"
  by (simp add: ask_value_def current_value_def Let_def lookup_set_state_value split: option.splits)

lemma ask_value_visits:
  "st_visits (snd (ask_value M ag s st)) s' =
     (if s' = s \<and> lookup st s = None then st_visits st s + 1 else st_visits st s')"
  by (simp add: ask_value_def Let_def st_visits_set_state_value split: option.splits)

lemma current_value_after_ask:
  "current_value M ag (snd (ask_value M ag s st)) s' = current_value M ag st s'"
  by (auto simp: current_value_def ask_value_lookup split: option.splits)

lemma current_value_Some: "lookup st s = Some v \<Longrightarrow> current_value M ag st s = v"
  by (simp add: current_value_def)


subsection \<open>backup\<close>

lemma backup_unfold:
  "backup M ag state nstate reward st =
     set_state_value state
       (current_value M ag st state
          + alpha ag * (current_value M ag st nstate - current_value M ag st state))
       (snd (ask_value M ag nstate (snd (ask_value M ag state st))))"
  by (simp add: backup_def Let_def split_beta ask_value_fst current_value_after_ask)


lemma lookup_backup_other:
  "s \<noteq> state \<Longrightarrow> s \<noteq> nstate \<Longrightarrow>
   lookup (backup M ag state nstate reward st) s = lookup st s"
  by (simp add: backup_unfold lookup_set_state_value ask_value_lookup)


text \<open>
  C2. One call of \<open>backup(state, nstate, reward)\<close> leaves for \<open>state\<close> the value
  \<open>old + alpha * (next - old)\<close>, where \<open>old\<close> and \<open>next\<close> are the values of \<open>state\<close> and
  \<open>nstate\<close> before the call, each lazily initialised if absent. The value is written by
  \<open>set_state_value\<close>, which adds exactly one to the visit counter of \<open>state\<close> as the two
  reads left it: in all the call adds one to the counter of a state the store held, and
  two (the lazy initialisation, then the write) to the counter of a state it did not.
\<close>

theorem backup_td_update:
  "lookup (backup M ag state nstate reward st) state =
     Some (current_value M ag st state
            + alpha ag * (current_value M ag st nstate - current_value M ag st state))
   \<and> backup M ag state nstate reward st =
       set_state_value state
         (current_value M ag st state
            + alpha ag * (current_value M ag st nstate - current_value M ag st state))
         (snd (ask_value M ag nstate (snd (ask_value M ag state st))))
   \<and> st_visits (backup M ag state nstate reward st) state =
       st_visits (snd (ask_value M ag nstate (snd (ask_value M ag state st)))) state + 1
   \<and> st_visits (backup M ag state nstate reward st) state =
       st_visits st state + (if lookup st state = None then 2 else 1)"
proof -
  note u = backup_unfold [of M ag state nstate reward st]
  have "lookup (backup M ag state nstate reward st) state =
     Some (current_value M ag st state
            + alpha ag * (current_value M ag st nstate - current_value M ag st state))"
    by (simp add: u lookup_set_state_value)
  moreover have "st_visits (backup M ag state nstate reward st) state =
       st_visits (snd (ask_value M ag nstate (snd (ask_value M ag state st)))) state + 1"
    by (simp add: u st_visits_set_state_value)
  moreover have "st_visits (backup M ag state nstate reward st) state =
       st_visits st state + (if lookup st state = None then 2 else 1)"
    by (simp add: u st_visits_set_state_value ask_value_visits ask_value_lookup)
  ultimately show ?thesis using u by blast
qed

theorem backup_td_update_witness:
  "lookup (backup ttt_module (TDAgent ''O'' (3 / 10) (1 / 2))
             (replicate 9 0, ''O'') ([1, 0, 0, 0, 0, 0, 0, 0, 0], ''X'') 0
             (set_state_value ([1, 0, 0, 0, 0, 0, 0, 0, 0], ''X'') 1 empty_store))
          (replicate 9 0, ''O'') = Some (1 / 2)
   \<and> st_visits (backup ttt_module (TDAgent ''O'' (3 / 10) (1 / 2))
             (replicate 9 0, ''O'') ([1, 0, 0, 0, 0, 0, 0, 0, 0], ''X'') 0
             (set_state_value ([1, 0, 0, 0, 0, 0, 0, 0, 0], ''X'') 1 empty_store))
          (replicate 9 0, ''O'') = 2"
proof -
  let ?ag = "TDAgent ''O'' (3 / 10) (1 / 2)"
  let ?s = "(replicate 9 0, ''O'') :: state"
  let ?n = "([1, 0, 0, 0, 0, 0, 0, 0, 0], ''X'') :: state"
  let ?st = "set_state_value ?n 1 empty_store"
  have l: "lookup ?st ?s = None" "st_visits ?st ?s = 0"
    by (simp_all add: lookup_def set_state_value_def empty_store_def)
  have v: "current_value ttt_module ?ag ?st ?s = 0" "current_value ttt_module ?ag ?st ?n = 1"
    by (simp_all add: current_value_def initial_value_def lookup_def set_state_value_def
        empty_store_def DEFAULT_VALUE_def ttt_module_def ttt_check_game_status_def
        wins_def win_lines_def)
  have a: "alpha ?ag = 1 / 2" by (simp add: TDAgent_def)
  note t = backup_td_update [of ttt_module ?ag ?s ?n 0 ?st]
  have "lookup (backup ttt_module ?ag ?s ?n 0 ?st) ?s = Some (1 / 2)"
    using t [THEN conjunct1] by (simp add: l v a)
  moreover have "st_visits (backup ttt_module ?ag ?s ?n 0 ?st) ?s = 2"
    using t [THEN conjunct2, THEN conjunct2, THEN conjunct2] by (simp add: l v a)
  ultimately show ?thesis by (rule conjI)
qed






subsection \<open>ask_value\<close>

text \<open>
  C4 (as the code has it). For a state the store does not hold, with no visit counted,
  \<open>ask_value\<close> returns and stores \<open>DEFAULT_VALUE\<close> and leaves the visit count at exactly 1,
  unless \<open>check_game_status\<close> reports a win on its board (a status above 0, for either
  mark): then it returns and stores the reward of the agent's own mark instead,
  \<open>O_REWARD\<close> for the mark \<open>'O'\<close> and \<open>X_REWARD\<close> for any other.
\<close>

theorem ask_value_new_state:
  assumes "lookup st state = None" and "st_visits st state = 0"
  shows "fst (ask_value M ag state st) =
           (if check_game_status M (fst state) > 0
            then (if mark ag = ''O'' then O_REWARD M else X_REWARD M)
            else DEFAULT_VALUE)
       \<and> lookup (snd (ask_value M ag state st)) state = Some (fst (ask_value M ag state st))
       \<and> st_visits (snd (ask_value M ag state st)) state = 1"
  using assms
  by (simp add: ask_value_def initial_value_def Let_def lookup_set_state_value
      st_visits_set_state_value)

theorem ask_value_new_state_witness:
  "fst (ask_value ttt_module (TDAgent ''X'' 0 0) (replicate 9 0, ''O'') empty_store) = DEFAULT_VALUE
   \<and> st_visits (snd (ask_value ttt_module (TDAgent ''X'' 0 0) (replicate 9 0, ''O'') empty_store))
        (replicate 9 0, ''O'') = 1
   \<and> fst (ask_value ttt_module (TDAgent ''X'' 0 0) ([1, 1, 1, 2, 2, 0, 0, 0, 0], ''X'') empty_store)
        = X_REWARD ttt_module"
proof -
  let ?ag = "TDAgent ''X'' 0 0"
  let ?s = "(replicate 9 0, ''O'') :: state"
  let ?w = "([1, 1, 1, 2, 2, 0, 0, 0, 0], ''X'') :: state"
  have e: "lookup empty_store s = None" "st_visits empty_store s = 0" for s
    by (simp_all add: lookup_def empty_store_def)
  have g: "\<not> check_game_status ttt_module (fst ?s) > 0" "check_game_status ttt_module (fst ?w) > 0"
    by (simp_all add: ttt_module_def ttt_check_game_status_def wins_def win_lines_def)
  have m: "mark ?ag \<noteq> ''O''" by (simp add: TDAgent_def)
  note t = ask_value_new_state [OF e [of ?s], where M = ttt_module and ag = ?ag]
  note u = ask_value_new_state [OF e [of ?w], where M = ttt_module and ag = ?ag]
  have "fst (ask_value ttt_module ?ag ?s empty_store) = DEFAULT_VALUE"
    using t [THEN conjunct1] g(1) by simp
  moreover have "st_visits (snd (ask_value ttt_module ?ag ?s empty_store)) ?s = 1"
    using t [THEN conjunct2, THEN conjunct2] .
  moreover have "fst (ask_value ttt_module ?ag ?w empty_store) = X_REWARD ttt_module"
    using u [THEN conjunct1] g(2) m by simp
  ultimately show ?thesis by blast
qed

text \<open>
  The claim as stated fails: on a board that \<open>'O'\<close> has won, which is no win of the mark
  of an agent playing \<open>'X'\<close>, \<open>ask_value\<close> of that agent does not give \<open>DEFAULT_VALUE\<close> for a
  state it has never seen, but \<open>X_REWARD\<close>.
\<close>

theorem ask_value_foreign_win_counterexample:
  "lookup empty_store ([1, 1, 1, 2, 2, 0, 0, 0, 0], ''X'') = None
   \<and> st_visits empty_store ([1, 1, 1, 2, 2, 0, 0, 0, 0], ''X'') = 0
   \<and> mark (TDAgent ''X'' 0 0) = ''X''
   \<and> check_game_status ttt_module [1, 1, 1, 2, 2, 0, 0, 0, 0] = tocode ''O''
   \<and> check_game_status ttt_module [1, 1, 1, 2, 2, 0, 0, 0, 0] \<noteq> tocode (mark (TDAgent ''X'' 0 0))
   \<and> fst (ask_value ttt_module (TDAgent ''X'' 0 0) ([1, 1, 1, 2, 2, 0, 0, 0, 0], ''X'') empty_store)
        = - 1
   \<and> fst (ask_value ttt_module (TDAgent ''X'' 0 0) ([1, 1, 1, 2, 2, 0, 0, 0, 0], ''X'') empty_store)
        \<noteq> DEFAULT_VALUE"
  by (simp add: ask_value_def initial_value_def lookup_def empty_store_def TDAgent_def
      DEFAULT_VALUE_def ttt_module_def ttt_check_game_status_def wins_def win_lines_def
      tocode_def set_state_value_def Let_def)

subsection \<open>greedy_action\<close>













subsection \<open>load_model\<close>
















subsection \<open>save_model, then load_model\<close>

lemma plain_text_append [simp]: "plain_text (a @ b) \<longleftrightarrow> plain_text a \<and> plain_text b"
  by (auto simp: plain_text_def)

lemma plain_text_Nil [simp]: "plain_text []"
  by (simp add: plain_text_def)













lemma plain_ascii: "plain_text a \<Longrightarrow> decode_ascii a = Inr a"
  by (auto simp: plain_text_def decode_ascii_def)










subsection \<open>The training loop\<close>

lemma lookup_backup_next:
  "nstate \<noteq> state \<Longrightarrow>
   lookup (backup M ag state nstate reward st) nstate = Some (current_value M ag st nstate)"
  by (simp add: backup_unfold lookup_set_state_value ask_value_lookup current_value_after_ask)

lemma st_visits_backup_other:
  "s \<noteq> state \<Longrightarrow> s \<noteq> nstate \<Longrightarrow>
   st_visits (backup M ag state nstate reward st) s = st_visits st s"
  by (simp add: backup_unfold st_visits_set_state_value ask_value_visits)

lemma st_visits_backup_next:
  "nstate \<noteq> state \<Longrightarrow> lookup st nstate = Some v \<Longrightarrow>
   st_visits (backup M ag state nstate reward st) nstate = st_visits st nstate"
  by (simp add: backup_unfold st_visits_set_state_value ask_value_visits ask_value_lookup)

lemma explore_act:
  assumes "ava \<noteq> []" and "0 < epsilon ag * episode_rate ag"
  shows "act M ag s ava st (\<lambda>_. 0) = Inr (ava ! 0, st, \<lambda>_. 0)"
  using assms
  by (simp add: act_def egreedy_policy_def random_random_def random_action_def
      random_choice_def rng_next_def)

lemma learn_turn:
  assumes "agent_by_mark mark ags (snd s) = Some ag"
    and "available_actions E e \<noteq> []"
    and "0 < epsilon ag * episode_rate ag"
    and "env_step E (available_actions E e ! 0) e = ((ns, r, d), e')"
  shows "learn_while E M (Suc n) ags s \<lparr>w_env = e, w_store = st, w_rng = \<lambda>_. 0\<rparr> =
           (if d
            then Some (Inr (ns, r, \<lparr>w_env = e', w_store = set_state_value s r (backup M ag s ns r st),
                                     w_rng = \<lambda>_. 0\<rparr>))
            else learn_while E M n ags ns
                   \<lparr>w_env = e', w_store = backup M ag s ns r st, w_rng = \<lambda>_. 0\<rparr>)"
  using assms by (simp add: explore_act)

lemmas ttt_eval = ttt_class_def ttt_module_def ttt_reset_def ttt_step_def ttt_obs_def
  ttt_available_actions_def ttt_check_game_status_def wins_def win_lines_def
  ttt_after_action_state_def ttt_next_mark_def tocode_def enumerate_eq_zip upt_rec

lemma ttt_first_move:
  assumes "env_board e = b" and "env_mark e = m" and "\<not> env_done e"
  shows "available_actions ttt_class e = map fst (filter (\<lambda>(i, c). c = 0) (enumerate 0 b))"
    and "env_step ttt_class a e =
           (((b[a := tocode m], ttt_next_mark m),
             (if ttt_check_game_status (b[a := tocode m]) = 1
                 \<or> ttt_check_game_status (b[a := tocode m]) = 2
              then (if m = ''O'' then 1 else - 1) else 0),
             ttt_check_game_status (b[a := tocode m]) \<ge> 0),
            e\<lparr>env_board := b[a := tocode m],
              env_done := ttt_check_game_status (b[a := tocode m]) \<ge> 0,
              env_mark := ttt_next_mark m\<rparr>)"
  using assms
  by (simp_all add: ttt_class_def ttt_available_actions_def ttt_step_def ttt_obs_def Let_def)

lemma ttt_game_turn1:
  "learn_while ttt_class ttt_module (Suc n) [TDAgent ''O'' 1 (1 / 2), TDAgent ''X'' 1 (1 / 2)]
     ([0, 0, 0, 0, 0, 0, 0, 0, 0], ''O'')
     \<lparr>w_env = \<lparr>env_board = [0, 0, 0, 0, 0, 0, 0, 0, 0], env_mark = ''O'', env_done = False, env_start_mark = ''O''\<rparr>,
       w_store = st, w_rng = \<lambda>_. 0\<rparr>
   = learn_while ttt_class ttt_module n [TDAgent ''O'' 1 (1 / 2), TDAgent ''X'' 1 (1 / 2)]
        ([1, 0, 0, 0, 0, 0, 0, 0, 0], ''X'')
        \<lparr>w_env = \<lparr>env_board = [1, 0, 0, 0, 0, 0, 0, 0, 0], env_mark = ''X'', env_done = False, env_start_mark = ''O''\<rparr>,
          w_store = backup ttt_module (TDAgent ''O'' 1 (1 / 2)) ([0, 0, 0, 0, 0, 0, 0, 0, 0], ''O'')
                      ([1, 0, 0, 0, 0, 0, 0, 0, 0], ''X'') 0 st,
          w_rng = \<lambda>_. 0\<rparr>"
  by (subst learn_turn [where ag = "TDAgent ''O'' 1 (1 / 2)" and ns = "([1, 0, 0, 0, 0, 0, 0, 0, 0], ''X'')" and r = 0 and d = False
        and e' = "\<lparr>env_board = [1, 0, 0, 0, 0, 0, 0, 0, 0], env_mark = ''X'', env_done = False, env_start_mark = ''O''\<rparr>"])
    (simp_all add: ttt_eval agent_by_mark_def TDAgent_def Let_def)

lemma ttt_game_turn2:
  "learn_while ttt_class ttt_module (Suc n) [TDAgent ''O'' 1 (1 / 2), TDAgent ''X'' 1 (1 / 2)]
     ([1, 0, 0, 0, 0, 0, 0, 0, 0], ''X'')
     \<lparr>w_env = \<lparr>env_board = [1, 0, 0, 0, 0, 0, 0, 0, 0], env_mark = ''X'', env_done = False, env_start_mark = ''O''\<rparr>,
       w_store = st, w_rng = \<lambda>_. 0\<rparr>
   = learn_while ttt_class ttt_module n [TDAgent ''O'' 1 (1 / 2), TDAgent ''X'' 1 (1 / 2)]
        ([1, 2, 0, 0, 0, 0, 0, 0, 0], ''O'')
        \<lparr>w_env = \<lparr>env_board = [1, 2, 0, 0, 0, 0, 0, 0, 0], env_mark = ''O'', env_done = False, env_start_mark = ''O''\<rparr>,
          w_store = backup ttt_module (TDAgent ''X'' 1 (1 / 2)) ([1, 0, 0, 0, 0, 0, 0, 0, 0], ''X'')
                      ([1, 2, 0, 0, 0, 0, 0, 0, 0], ''O'') 0 st,
          w_rng = \<lambda>_. 0\<rparr>"
  by (subst learn_turn [where ag = "TDAgent ''X'' 1 (1 / 2)" and ns = "([1, 2, 0, 0, 0, 0, 0, 0, 0], ''O'')" and r = 0 and d = False
        and e' = "\<lparr>env_board = [1, 2, 0, 0, 0, 0, 0, 0, 0], env_mark = ''O'', env_done = False, env_start_mark = ''O''\<rparr>"])
    (simp_all add: ttt_eval agent_by_mark_def TDAgent_def Let_def)

lemma ttt_game_turn3:
  "learn_while ttt_class ttt_module (Suc n) [TDAgent ''O'' 1 (1 / 2), TDAgent ''X'' 1 (1 / 2)]
     ([1, 2, 0, 0, 0, 0, 0, 0, 0], ''O'')
     \<lparr>w_env = \<lparr>env_board = [1, 2, 0, 0, 0, 0, 0, 0, 0], env_mark = ''O'', env_done = False, env_start_mark = ''O''\<rparr>,
       w_store = st, w_rng = \<lambda>_. 0\<rparr>
   = learn_while ttt_class ttt_module n [TDAgent ''O'' 1 (1 / 2), TDAgent ''X'' 1 (1 / 2)]
        ([1, 2, 1, 0, 0, 0, 0, 0, 0], ''X'')
        \<lparr>w_env = \<lparr>env_board = [1, 2, 1, 0, 0, 0, 0, 0, 0], env_mark = ''X'', env_done = False, env_start_mark = ''O''\<rparr>,
          w_store = backup ttt_module (TDAgent ''O'' 1 (1 / 2)) ([1, 2, 0, 0, 0, 0, 0, 0, 0], ''O'')
                      ([1, 2, 1, 0, 0, 0, 0, 0, 0], ''X'') 0 st,
          w_rng = \<lambda>_. 0\<rparr>"
  by (subst learn_turn [where ag = "TDAgent ''O'' 1 (1 / 2)" and ns = "([1, 2, 1, 0, 0, 0, 0, 0, 0], ''X'')" and r = 0 and d = False
        and e' = "\<lparr>env_board = [1, 2, 1, 0, 0, 0, 0, 0, 0], env_mark = ''X'', env_done = False, env_start_mark = ''O''\<rparr>"])
    (simp_all add: ttt_eval agent_by_mark_def TDAgent_def Let_def)

lemma ttt_game_turn4:
  "learn_while ttt_class ttt_module (Suc n) [TDAgent ''O'' 1 (1 / 2), TDAgent ''X'' 1 (1 / 2)]
     ([1, 2, 1, 0, 0, 0, 0, 0, 0], ''X'')
     \<lparr>w_env = \<lparr>env_board = [1, 2, 1, 0, 0, 0, 0, 0, 0], env_mark = ''X'', env_done = False, env_start_mark = ''O''\<rparr>,
       w_store = st, w_rng = \<lambda>_. 0\<rparr>
   = learn_while ttt_class ttt_module n [TDAgent ''O'' 1 (1 / 2), TDAgent ''X'' 1 (1 / 2)]
        ([1, 2, 1, 2, 0, 0, 0, 0, 0], ''O'')
        \<lparr>w_env = \<lparr>env_board = [1, 2, 1, 2, 0, 0, 0, 0, 0], env_mark = ''O'', env_done = False, env_start_mark = ''O''\<rparr>,
          w_store = backup ttt_module (TDAgent ''X'' 1 (1 / 2)) ([1, 2, 1, 0, 0, 0, 0, 0, 0], ''X'')
                      ([1, 2, 1, 2, 0, 0, 0, 0, 0], ''O'') 0 st,
          w_rng = \<lambda>_. 0\<rparr>"
  by (subst learn_turn [where ag = "TDAgent ''X'' 1 (1 / 2)" and ns = "([1, 2, 1, 2, 0, 0, 0, 0, 0], ''O'')" and r = 0 and d = False
        and e' = "\<lparr>env_board = [1, 2, 1, 2, 0, 0, 0, 0, 0], env_mark = ''O'', env_done = False, env_start_mark = ''O''\<rparr>"])
    (simp_all add: ttt_eval agent_by_mark_def TDAgent_def Let_def)

lemma ttt_game_turn5:
  "learn_while ttt_class ttt_module (Suc n) [TDAgent ''O'' 1 (1 / 2), TDAgent ''X'' 1 (1 / 2)]
     ([1, 2, 1, 2, 0, 0, 0, 0, 0], ''O'')
     \<lparr>w_env = \<lparr>env_board = [1, 2, 1, 2, 0, 0, 0, 0, 0], env_mark = ''O'', env_done = False, env_start_mark = ''O''\<rparr>,
       w_store = st, w_rng = \<lambda>_. 0\<rparr>
   = learn_while ttt_class ttt_module n [TDAgent ''O'' 1 (1 / 2), TDAgent ''X'' 1 (1 / 2)]
        ([1, 2, 1, 2, 1, 0, 0, 0, 0], ''X'')
        \<lparr>w_env = \<lparr>env_board = [1, 2, 1, 2, 1, 0, 0, 0, 0], env_mark = ''X'', env_done = False, env_start_mark = ''O''\<rparr>,
          w_store = backup ttt_module (TDAgent ''O'' 1 (1 / 2)) ([1, 2, 1, 2, 0, 0, 0, 0, 0], ''O'')
                      ([1, 2, 1, 2, 1, 0, 0, 0, 0], ''X'') 0 st,
          w_rng = \<lambda>_. 0\<rparr>"
  by (subst learn_turn [where ag = "TDAgent ''O'' 1 (1 / 2)" and ns = "([1, 2, 1, 2, 1, 0, 0, 0, 0], ''X'')" and r = 0 and d = False
        and e' = "\<lparr>env_board = [1, 2, 1, 2, 1, 0, 0, 0, 0], env_mark = ''X'', env_done = False, env_start_mark = ''O''\<rparr>"])
    (simp_all add: ttt_eval agent_by_mark_def TDAgent_def Let_def)

lemma ttt_game_turn6:
  "learn_while ttt_class ttt_module (Suc n) [TDAgent ''O'' 1 (1 / 2), TDAgent ''X'' 1 (1 / 2)]
     ([1, 2, 1, 2, 1, 0, 0, 0, 0], ''X'')
     \<lparr>w_env = \<lparr>env_board = [1, 2, 1, 2, 1, 0, 0, 0, 0], env_mark = ''X'', env_done = False, env_start_mark = ''O''\<rparr>,
       w_store = st, w_rng = \<lambda>_. 0\<rparr>
   = learn_while ttt_class ttt_module n [TDAgent ''O'' 1 (1 / 2), TDAgent ''X'' 1 (1 / 2)]
        ([1, 2, 1, 2, 1, 2, 0, 0, 0], ''O'')
        \<lparr>w_env = \<lparr>env_board = [1, 2, 1, 2, 1, 2, 0, 0, 0], env_mark = ''O'', env_done = False, env_start_mark = ''O''\<rparr>,
          w_store = backup ttt_module (TDAgent ''X'' 1 (1 / 2)) ([1, 2, 1, 2, 1, 0, 0, 0, 0], ''X'')
                      ([1, 2, 1, 2, 1, 2, 0, 0, 0], ''O'') 0 st,
          w_rng = \<lambda>_. 0\<rparr>"
  by (subst learn_turn [where ag = "TDAgent ''X'' 1 (1 / 2)" and ns = "([1, 2, 1, 2, 1, 2, 0, 0, 0], ''O'')" and r = 0 and d = False
        and e' = "\<lparr>env_board = [1, 2, 1, 2, 1, 2, 0, 0, 0], env_mark = ''O'', env_done = False, env_start_mark = ''O''\<rparr>"])
    (simp_all add: ttt_eval agent_by_mark_def TDAgent_def Let_def)

lemma ttt_game_turn7:
  "learn_while ttt_class ttt_module (Suc n) [TDAgent ''O'' 1 (1 / 2), TDAgent ''X'' 1 (1 / 2)]
     ([1, 2, 1, 2, 1, 2, 0, 0, 0], ''O'')
     \<lparr>w_env = \<lparr>env_board = [1, 2, 1, 2, 1, 2, 0, 0, 0], env_mark = ''O'', env_done = False, env_start_mark = ''O''\<rparr>,
       w_store = st, w_rng = \<lambda>_. 0\<rparr>
   = Some (Inr (([1, 2, 1, 2, 1, 2, 1, 0, 0], ''X''), 1,
        \<lparr>w_env = \<lparr>env_board = [1, 2, 1, 2, 1, 2, 1, 0, 0], env_mark = ''X'', env_done = True, env_start_mark = ''O''\<rparr>,
          w_store = set_state_value ([1, 2, 1, 2, 1, 2, 0, 0, 0], ''O'') 1
                      (backup ttt_module (TDAgent ''O'' 1 (1 / 2)) ([1, 2, 1, 2, 1, 2, 0, 0, 0], ''O'')
                         ([1, 2, 1, 2, 1, 2, 1, 0, 0], ''X'') 1 st),
          w_rng = \<lambda>_. 0\<rparr>))"
  by (subst learn_turn [where ag = "TDAgent ''O'' 1 (1 / 2)" and ns = "([1, 2, 1, 2, 1, 2, 1, 0, 0], ''X'')" and r = 1 and d = True
        and e' = "\<lparr>env_board = [1, 2, 1, 2, 1, 2, 1, 0, 0], env_mark = ''X'', env_done = True, env_start_mark = ''O''\<rparr>"])
    (simp_all add: ttt_eval agent_by_mark_def TDAgent_def Let_def)

text \<open>
  C1. The loop of \<open>_learn\<close> ends an episode with \<open>set_state_value(state, reward)\<close>, under
  the comment "set terminal state value"; but \<open>state\<close> is still the state in which the
  last action was chosen, and the terminal state is \<open>nstate\<close>. So the forced set writes
  the reward to the last state before the end, and the terminal state keeps what
  \<open>ask_value\<close> read or initialised. Here one episode of tic-tac-toe is run, with step
  size 0.5, exploration 1 and a generator that always draws 0, on tables that hold the
  value 0.5 for the position in which \<open>'O'\<close> has won on the diagonal. The episode ends in
  that position with the reward 1; its value is still 0.5, its visit count unchanged,
  and the position before it holds the reward.
\<close>

theorem learn_episode_sets_last_state:
  "\<exists>agents w.
     learn_episode ttt_class ttt_module 9 1 0
        [TDAgent ''O'' 1 (1 / 2), TDAgent ''X'' 1 (1 / 2)] ''O''
        \<lparr>w_env = new_env ttt_class,
          w_store = set_state_value ([1, 2, 1, 2, 1, 2, 1, 0, 0], ''X'') (1 / 2) empty_store,
          w_rng = \<lambda>_. 0\<rparr>
       = Some (Inr (agents, ([1, 2, 1, 2, 1, 2, 1, 0, 0], ''X''), 1, w))
     \<and> check_game_status ttt_module [1, 2, 1, 2, 1, 2, 1, 0, 0] = tocode ''O''
     \<and> lookup (w_store w) ([1, 2, 1, 2, 1, 2, 1, 0, 0], ''X'') = Some (1 / 2)
     \<and> st_visits (w_store w) ([1, 2, 1, 2, 1, 2, 1, 0, 0], ''X'') = 1
     \<and> lookup (w_store w) ([1, 2, 1, 2, 1, 2, 0, 0, 0], ''O'') = Some 1"
proof -
  let ?O = "TDAgent ''O'' 1 (1 / 2)" and ?X = "TDAgent ''X'' 1 (1 / 2)"
  let ?T = "([1, 2, 1, 2, 1, 2, 1, 0, 0], ''X'') :: state"
  let ?S = "([1, 2, 1, 2, 1, 2, 0, 0, 0], ''O'') :: state"
  let ?st0 = "set_state_value ?T (1 / 2) empty_store"
  let ?st1 = "backup ttt_module ?O ([0, 0, 0, 0, 0, 0, 0, 0, 0], ''O'')
                ([1, 0, 0, 0, 0, 0, 0, 0, 0], ''X'') 0 ?st0"
  let ?st2 = "backup ttt_module ?X ([1, 0, 0, 0, 0, 0, 0, 0, 0], ''X'')
                ([1, 2, 0, 0, 0, 0, 0, 0, 0], ''O'') 0 ?st1"
  let ?st3 = "backup ttt_module ?O ([1, 2, 0, 0, 0, 0, 0, 0, 0], ''O'')
                ([1, 2, 1, 0, 0, 0, 0, 0, 0], ''X'') 0 ?st2"
  let ?st4 = "backup ttt_module ?X ([1, 2, 1, 0, 0, 0, 0, 0, 0], ''X'')
                ([1, 2, 1, 2, 0, 0, 0, 0, 0], ''O'') 0 ?st3"
  let ?st5 = "backup ttt_module ?O ([1, 2, 1, 2, 0, 0, 0, 0, 0], ''O'')
                ([1, 2, 1, 2, 1, 0, 0, 0, 0], ''X'') 0 ?st4"
  let ?st6 = "backup ttt_module ?X ([1, 2, 1, 2, 1, 0, 0, 0, 0], ''X'')
                ?S 0 ?st5"
  let ?st7 = "set_state_value ?S 1 (backup ttt_module ?O ?S ?T 1 ?st6)"
  let ?w = "\<lparr>w_env = \<lparr>env_board = [1, 2, 1, 2, 1, 2, 1, 0, 0], env_mark = ''X'',
                         env_done = True, env_start_mark = ''O''\<rparr>,
             w_store = ?st7, w_rng = \<lambda>_. 0\<rparr>"
  have rep: "replicate 9 (0 :: int) = [0, 0, 0, 0, 0, 0, 0, 0, 0]"
    by (simp add: eval_nat_numeral)
  have ags: "map (\<lambda>agent. agent\<lparr>episode_rate := real (0 + 1) / real_of_int 1\<rparr>) [?O, ?X] = [?O, ?X]"
    by (simp add: TDAgent_def)
  have start: "learn_episode ttt_class ttt_module 9 1 0 [?O, ?X] ''O''
        \<lparr>w_env = new_env ttt_class, w_store = ?st0, w_rng = \<lambda>_. 0\<rparr>
      = (case learn_while ttt_class ttt_module 9 [?O, ?X] ([0, 0, 0, 0, 0, 0, 0, 0, 0], ''O'')
               \<lparr>w_env = \<lparr>env_board = [0, 0, 0, 0, 0, 0, 0, 0, 0], env_mark = ''O'',
                          env_done = False, env_start_mark = ''O''\<rparr>,
                 w_store = ?st0, w_rng = \<lambda>_. 0\<rparr> of
           None \<Rightarrow> None
         | Some (Inl e) \<Rightarrow> Some (Inl e)
         | Some (Inr (state', reward, w')) \<Rightarrow> Some (Inr ([?O, ?X], state', reward, w')))"
    unfolding learn_episode_def Let_def ags
    by (simp add: ttt_class_def ttt_reset_def ttt_obs_def rep)
  have nine: "(9 :: nat) = Suc (Suc (Suc (Suc (Suc (Suc (Suc (Suc (Suc 0))))))))"
    by simp
  have run: "learn_while ttt_class ttt_module 9 [?O, ?X] ([0, 0, 0, 0, 0, 0, 0, 0, 0], ''O'')
               \<lparr>w_env = \<lparr>env_board = [0, 0, 0, 0, 0, 0, 0, 0, 0], env_mark = ''O'',
                          env_done = False, env_start_mark = ''O''\<rparr>,
                 w_store = ?st0, w_rng = \<lambda>_. 0\<rparr>
             = Some (Inr (?T, 1, ?w))"
    unfolding nine
    by (simp only: ttt_game_turn1 ttt_game_turn2 ttt_game_turn3 ttt_game_turn4 ttt_game_turn5
        ttt_game_turn6 ttt_game_turn7)
  have ep: "learn_episode ttt_class ttt_module 9 1 0 [?O, ?X] ''O''
        \<lparr>w_env = new_env ttt_class, w_store = ?st0, w_rng = \<lambda>_. 0\<rparr>
      = Some (Inr ([?O, ?X], ?T, 1, ?w))"
    unfolding start run by simp
  have t0: "lookup ?st0 ?T = Some (1 / 2)" "st_visits ?st0 ?T = 1"
    by (simp_all add: lookup_def set_state_value_def empty_store_def)
  have t6: "lookup ?st6 ?T = Some (1 / 2)"
    by (simp add: lookup_backup_other t0)
  have v6: "st_visits ?st6 ?T = 1"
    by (simp add: st_visits_backup_other t0)
  have "current_value ttt_module ?O ?st6 ?T = 1 / 2"
    using t6 by (rule current_value_Some)
  then have t7: "lookup ?st7 ?T = Some (1 / 2)"
    by (simp add: lookup_set_state_value lookup_backup_next)
  have v7: "st_visits ?st7 ?T = 1"
    using v6 st_visits_backup_next [where nstate = ?T and state = ?S and st = ?st6, OF _ t6]
    by (simp add: st_visits_set_state_value)
  have s7: "lookup ?st7 ?S = Some 1"
    by (simp add: lookup_set_state_value)
  have g: "check_game_status ttt_module [1, 2, 1, 2, 1, 2, 1, 0, 0] = tocode ''O''"
    by (simp add: ttt_module_def ttt_check_game_status_def wins_def win_lines_def tocode_def)
  from ep g t7 v7 s7 show ?thesis
    by (intro exI [of _ "[?O, ?X]"] exI [of _ ?w]) simp
qed

subsection \<open>The benchmark\<close>






















end
